theory Spec2Isabelle
  imports Main "HOL-Library.AList"
begin

section \<open>Data model\<close>

text \<open>
  The entity classes of the repository. Every entity extends \<^verbatim>\<open>CustomBaseEntity\<close>
  (primary key \<^verbatim>\<open>id: number\<close>; the two date columns play no role below and are left
  out). JavaScript numbers that hold primary keys are modelled as mathematical integers,
  which is exact for every key of absolute value below \<open>2 ^ 53\<close>.

  \<^verbatim>\<open>User\<close> and \<^verbatim>\<open>Organization\<close> both declare \<^verbatim>\<open>tenant: Tenant\<close>. The common field
  is placed in the record \<open>TenantOwned\<close>, so that the stamping hook, which the source
  types as \<^verbatim>\<open>EventArgs<any>\<close>, is one function on every entity that carries the field.
  A reference that is \<^verbatim>\<open>undefined\<close> (not set, or not loaded) is \<open>None\<close>.
\<close>

record CustomBaseEntity =
  id' :: int

record Tenant = CustomBaseEntity +
  domain :: string
  isActive :: bool

record Permission = CustomBaseEntity +
  name :: string
  action :: string
  subject :: string

text \<open>
  \<^verbatim>\<open>Role.permissions\<close> is an ORM collection; \<open>None\<close> is the collection that has not
  been initialised (the relation was not populated), on which every read raises.
\<close>

record Role = CustomBaseEntity +
  name :: string
  permissions :: "Permission list option"

record TenantOwned = CustomBaseEntity +
  tenant :: "Tenant option"

record Organization = TenantOwned +
  name :: string
  description :: "string option"

record User = TenantOwned +
  username :: string
  email :: string
  password :: string
  role :: "Role option"

text \<open>The entity classes as values (\<^verbatim>\<open>EntityName<any>\<close>), compared with \<^verbatim>\<open>!==\<close>.\<close>

datatype EntityName = UserClass | OrganizationClass | TenantClass | RoleClass | PermissionClass

text \<open>
  Exceptions that the modelled code raises. \<open>TypeError\<close> is the JavaScript error of
  reading a property of \<^verbatim>\<open>undefined\<close>; \<open>CollectionNotInitialized\<close> is the error of the ORM
  when an unpopulated collection is read.
\<close>

datatype error =
    InternalServerErrorException string
  | BadRequestException string
  | UnauthorizedException string
  | TypeError
  | CollectionNotInitialized

text \<open>The HTTP status with which the framework answers when the exception reaches it.\<close>

fun getStatus :: "error \<Rightarrow> nat" where
  "getStatus (InternalServerErrorException m) = 500"
| "getStatus (BadRequestException m) = 400"
| "getStatus (UnauthorizedException m) = 401"
| "getStatus TypeError = 500"
| "getStatus CollectionNotInitialized = 500"

section \<open>Configuration and the request context store\<close>

text \<open>
  \<^verbatim>\<open>tenant.config.ts\<close>: the list of tenant-owned entity classes and the root domain, read
  from the environment variable \<^verbatim>\<open>TENANT_DOMAIN\<close> (\<open>None\<close> when it is not set).
\<close>

record tenantConfig =
  entities :: "EntityName list"
  domain :: "string option"

definition tenantConfigService :: "string option \<Rightarrow> tenantConfig" where
  "tenantConfigService TENANT_DOMAIN =
     \<lparr>entities = [UserClass, OrganizationClass], domain = TENANT_DOMAIN\<rparr>"

text \<open>
  The continuation-local store (\<^verbatim>\<open>ClsService\<close>): keys to values. Only the key
  \<^verbatim>\<open>'tenant'\<close> is ever written, so the values are tenants. \<^verbatim>\<open>cls.get\<close> of a key that was
  never set, or that was set to \<^verbatim>\<open>undefined\<close>, is \<^verbatim>\<open>undefined\<close>.
\<close>

type_synonym ClsService = "string \<Rightarrow> Tenant option"

definition cls_empty :: ClsService where
  "cls_empty = (\<lambda>k. None)"

definition cls_get :: "ClsService \<Rightarrow> string \<Rightarrow> Tenant option" where
  "cls_get cls k = cls k"

definition cls_set :: "ClsService \<Rightarrow> string \<Rightarrow> Tenant option \<Rightarrow> ClsService" where
  "cls_set cls k v = cls(k := v)"

section \<open>Entity lifecycle hooks\<close>

subsection \<open>TenantAwareSubscriber\<close>

text \<open>
  \<^verbatim>\<open>getSubscribedEntities\<close>: the configured entities without \<^verbatim>\<open>User\<close> (the debug log
  line has no effect on the result).
\<close>

definition TenantAwareSubscriber_getSubscribedEntities :: "tenantConfig \<Rightarrow> EntityName list" where
  "TenantAwareSubscriber_getSubscribedEntities cfg =
     filter (\<lambda>entity. entity \<noteq> UserClass) (entities cfg)"

text \<open>
  \<^verbatim>\<open>beforeCreate\<close>: \<^verbatim>\<open>args.entity.tenant = this.cls.get('tenant')\<close>. The body has no
  \<^verbatim>\<open>throw\<close> and no test of the value read, so the result is always \<open>Inr\<close>; the sum type
  is the type of every hook, so that a hook outcome can be compared with a failure.
\<close>

definition TenantAwareSubscriber_beforeCreate ::
  "ClsService \<Rightarrow> 'a TenantOwned_scheme \<Rightarrow> error + 'a TenantOwned_scheme" where
  "TenantAwareSubscriber_beforeCreate cls entity =
     Inr (entity\<lparr>tenant := cls_get cls ''tenant''\<rparr>)"

subsection \<open>TenantSubscriber\<close>

definition TenantSubscriber_getSubscribedEntities :: "EntityName list" where
  "TenantSubscriber_getSubscribedEntities = [TenantClass]"

text \<open>
  String concatenation with a value that may be \<^verbatim>\<open>undefined\<close>: the non-null assertion
  \<^verbatim>\<open>!\<close> of the source is erased at run time, and \<^verbatim>\<open>+\<close> renders \<^verbatim>\<open>undefined\<close> as text.
\<close>

definition js_to_string :: "string option \<Rightarrow> string" where
  "js_to_string v = (case v of None \<Rightarrow> ''undefined'' | Some s \<Rightarrow> s)"

text \<open>
  \<^verbatim>\<open>beforeCreate\<close>:
  \<^verbatim>\<open>args.entity.domain = args.entity.domain + '.' + this.tenantConfigService.domain!\<close>.
\<close>

definition TenantSubscriber_beforeCreate :: "tenantConfig \<Rightarrow> Tenant \<Rightarrow> error + Tenant" where
  "TenantSubscriber_beforeCreate cfg entity =
     Inr (entity\<lparr>Tenant.domain :=
            Tenant.domain entity @ ''.'' @ js_to_string (tenantConfig.domain cfg)\<rparr>)"

subsection \<open>Dispatch of the before-create event\<close>

text \<open>
  Both subscribers register themselves with the event manager in their constructors. On
  the first persist of an entity the event manager calls \<^verbatim>\<open>beforeCreate\<close> of each
  subscriber whose \<^verbatim>\<open>getSubscribedEntities\<close> contains the entity's class. The two
  functions below are that dispatch for an entity with a tenant field and for a
  \<^verbatim>\<open>Tenant\<close>.
\<close>

definition fire_beforeCreate_owned ::
  "tenantConfig \<Rightarrow> ClsService \<Rightarrow> EntityName \<Rightarrow> 'a TenantOwned_scheme
     \<Rightarrow> error + 'a TenantOwned_scheme" where
  "fire_beforeCreate_owned cfg cls cl entity =
     (if cl \<in> set (TenantAwareSubscriber_getSubscribedEntities cfg)
      then TenantAwareSubscriber_beforeCreate cls entity
      else Inr entity)"

definition fire_beforeCreate_Tenant ::
  "tenantConfig \<Rightarrow> ClsService \<Rightarrow> Tenant \<Rightarrow> error + Tenant" where
  "fire_beforeCreate_Tenant cfg cls entity =
     (if TenantClass \<in> set TenantSubscriber_getSubscribedEntities
      then TenantSubscriber_beforeCreate cfg entity
      else Inr entity)"

section \<open>The data-access session\<close>

text \<open>
  Modelled from the spec: the filter mechanism of the ORM session (\<^verbatim>\<open>addFilter\<close>,
  \<^verbatim>\<open>setFilterParams\<close> and the \<^verbatim>\<open>findOne\<close> of a repository), which is library code the
  repository calls and does not contain. Section 4.5 of the specification: every query
  against a declared tenant-owned entity type is transparently conjoined with
  \<^verbatim>\<open>tenant = <current tenant id>\<close>. A filter is a named function from its parameters
  to a condition (property name, required value) together with the entity classes it
  applies to; a query on a class returns only rows that satisfy the condition of every
  filter registered for that class. The session also holds the two tables that the
  repositories of the source read.
\<close>

type_synonym FilterParams = "(string \<times> int) list"

type_synonym FilterQuery = "(string \<times> int option) list"

record FilterDef =
  cond :: "FilterParams \<Rightarrow> FilterQuery"
  filter_entities :: "EntityName list"

record EntityManager =
  filters :: "(string \<times> FilterDef) list"
  filterParams :: "(string \<times> FilterParams) list"
  organization_table :: "Organization list"
  user_table :: "User list"

definition addFilter ::
  "string \<Rightarrow> (FilterParams \<Rightarrow> FilterQuery) \<Rightarrow> EntityName list \<Rightarrow> EntityManager \<Rightarrow> EntityManager" where
  "addFilter nm c ents em =
     em\<lparr>filters := AList.update nm \<lparr>cond = c, filter_entities = ents\<rparr> (filters em)\<rparr>"

definition setFilterParams :: "string \<Rightarrow> FilterParams \<Rightarrow> EntityManager \<Rightarrow> EntityManager" where
  "setFilterParams nm args em = em\<lparr>filterParams := AList.update nm args (filterParams em)\<rparr>"

text \<open>The numeric columns of a row that a condition can mention.\<close>

definition row_prop :: "'a TenantOwned_scheme \<Rightarrow> string \<Rightarrow> int option" where
  "row_prop row p =
     (if p = ''id'' then Some (id' row)
      else if p = ''tenant'' then map_option id' (tenant row)
      else None)"

definition matches :: "FilterQuery \<Rightarrow> 'a TenantOwned_scheme \<Rightarrow> bool" where
  "matches q row = list_all (\<lambda>(p, v). row_prop row p = v) q"

definition passes_filters :: "EntityManager \<Rightarrow> EntityName \<Rightarrow> 'a TenantOwned_scheme \<Rightarrow> bool" where
  "passes_filters em cl row =
     list_all (\<lambda>(nm, f).
        cl \<in> set (filter_entities f) \<longrightarrow>
        matches (cond f (case map_of (filterParams em) nm of None \<Rightarrow> [] | Some args \<Rightarrow> args)) row)
      (filters em)"

definition em_findOne ::
  "EntityManager \<Rightarrow> EntityName \<Rightarrow> 'a TenantOwned_scheme list \<Rightarrow> int \<Rightarrow> 'a TenantOwned_scheme option" where
  "em_findOne em cl table i = find (\<lambda>row. id' row = i \<and> passes_filters em cl row) table"

text \<open>
  \<^verbatim>\<open>FindOneOptions\<close>: which relations to populate. Rows of the model carry their
  references already, so the options do not change which row is found.
\<close>

record FindOneOptions =
  populate :: "string list"
  disableIdentityMap :: "bool option"


definition UserRepository_findOne ::
  "EntityManager \<Rightarrow> int \<Rightarrow> FindOneOptions option \<Rightarrow> User option" where
  "UserRepository_findOne em i options = em_findOne em UserClass (user_table em) i"

subsection \<open>OrganizationsService and UsersService\<close>


definition UsersService_findOne ::
  "EntityManager \<Rightarrow> int \<Rightarrow> FindOneOptions option \<Rightarrow> User option" where
  "UsersService_findOne em i options =
     (case options of
        Some opts \<Rightarrow> UserRepository_findOne em i (Some opts)
      | None \<Rightarrow> UserRepository_findOne em i None)"

section \<open>Principal resolver\<close>

text \<open>
  \<^verbatim>\<open>JwtStrategy.validate(payload)\<close>: look the user of \<^verbatim>\<open>payload.sub\<close> up with role,
  permissions and tenant populated; \<^verbatim>\<open>if (user) this.cls.set('tenant', user.tenant)\<close>;
  return the user. The result is the store after the call and the user that the framework
  attaches to the request.
\<close>

definition JwtStrategy_validate ::
  "EntityManager \<Rightarrow> ClsService \<Rightarrow> int \<Rightarrow> ClsService \<times> User option" where
  "JwtStrategy_validate em cls sub =
     (let user = UsersService_findOne em sub
                   (Some \<lparr>populate = [''role'', ''role.permissions'', ''tenant''],
                          disableIdentityMap = Some True\<rparr>)
      in case user of
           Some u \<Rightarrow> (cls_set cls ''tenant'' (tenant u), Some u)
         | None \<Rightarrow> (cls, None))"

section \<open>Capabilities, requests and route metadata\<close>

text \<open>
  The capability model of \<^verbatim>\<open>casl-ability.factory.ts\<close>: the two enumerations with their
  string values, and a rule as the pair the factory builds from a permission.
\<close>

datatype Subjects = User | Role | Permission | Organization

fun Subjects_value :: "Subjects \<Rightarrow> string" where
  "Subjects_value Subjects.User = ''User''"
| "Subjects_value Subjects.Role = ''Role''"
| "Subjects_value Subjects.Permission = ''Permission''"
| "Subjects_value Subjects.Organization = ''Organization''"

datatype Actions =
    Manage | Create | CreateAny | CreateOne | CreateOwn
  | Read | ReadAny | ReadOne | ReadOwn
  | Update | UpdateAny | UpdateOne | UpdateOwn
  | Delete | DeleteAny | DeleteOne | DeleteOwn

fun Actions_value :: "Actions \<Rightarrow> string" where
  "Actions_value Manage = ''manage''"
| "Actions_value Create = ''create''"
| "Actions_value CreateAny = ''createAny''"
| "Actions_value CreateOne = ''createOne''"
| "Actions_value CreateOwn = ''createOwn''"
| "Actions_value Read = ''read''"
| "Actions_value ReadAny = ''readAny''"
| "Actions_value ReadOne = ''readOne''"
| "Actions_value ReadOwn = ''readOwn''"
| "Actions_value Update = ''update''"
| "Actions_value UpdateAny = ''updateAny''"
| "Actions_value UpdateOne = ''updateOne''"
| "Actions_value UpdateOwn = ''updateOwn''"
| "Actions_value Delete = ''delete''"
| "Actions_value DeleteAny = ''deleteAny''"
| "Actions_value DeleteOne = ''deleteOne''"
| "Actions_value DeleteOwn = ''deleteOwn''"

record RawRule =
  action :: string
  subject :: string

datatype AppAbility = MongoAbility (rules: "RawRule list")

definition createMongoAbility :: "RawRule list \<Rightarrow> AppAbility" where
  "createMongoAbility rs = MongoAbility rs"

text \<open>
  Modelled from the spec: \<^verbatim>\<open>ability.can\<close> of the capability library, which the
  repository calls and does not contain. Section 9 of the specification: a grant matches
  if its subject equals the target subject and its action equals the target action or is
  the wildcard marker (\<^verbatim>\<open>'manage'\<close>). No rule built by the factory is inverted or carries
  conditions, so the ability grants a pair exactly when some rule matches it. Conventions
  of the library beyond this rule are not modelled.
\<close>

definition rule_matches :: "RawRule \<Rightarrow> Actions \<Rightarrow> Subjects \<Rightarrow> bool" where
  "rule_matches r a s =
     (RawRule.subject r = Subjects_value s \<and>
      (RawRule.action r = Actions_value a \<or> RawRule.action r = Actions_value Manage))"

definition can :: "AppAbility \<Rightarrow> Actions \<Rightarrow> Subjects \<Rightarrow> bool" where
  "can ability a s = list_ex (\<lambda>r. rule_matches r a s) (rules ability)"

text \<open>
  The request as the modelled code reads it: the user that authentication attached (if
  any) and the route parameter \<^verbatim>\<open>request.params.id\<close>, a string. A string is a list of
  code units below 256.
\<close>

record Request =
  user :: "User option"
  params_id :: string

text \<open>
  A policy handler is an object with a \<^verbatim>\<open>handle\<close> method or a bare function, both from
  the ability, the user and the request to a boolean.
\<close>

datatype PolicyHandler =
    IPolicyHandler (handle: "AppAbility \<Rightarrow> User \<Rightarrow> Request \<Rightarrow> bool")
  | PolicyHandlerCallback "AppAbility \<Rightarrow> User \<Rightarrow> Request \<Rightarrow> bool"

text \<open>
  The metadata that the decorators \<^verbatim>\<open>@Public()\<close>, \<^verbatim>\<open>@SkipTenant()\<close> and
  \<^verbatim>\<open>@CheckPolicies(...)\<close> attach to a route handler or a controller class; \<open>None\<close> is
  a key that was not set. The execution context gives the metadata of the handler and of
  its class, and the request.
\<close>

record Metadata =
  isPublic :: "bool option"
  skipTenant :: "bool option"
  checkPolicy :: "PolicyHandler list option"

record ExecutionContext =
  getHandler :: Metadata
  getClass :: Metadata
  getRequest :: Request

text \<open>
  \<^verbatim>\<open>Reflector.getAllAndOverride\<close>: the first value that is defined among the targets.
\<close>

definition getAllAndOverride :: "(Metadata \<Rightarrow> 'a option) \<Rightarrow> Metadata list \<Rightarrow> 'a option" where
  "getAllAndOverride key targets =
     (case filter (\<lambda>v. v \<noteq> None) (map key targets) of [] \<Rightarrow> None | v # _ \<Rightarrow> v)"

section \<open>Tenant scope filter installer\<close>

text \<open>
  \<^verbatim>\<open>TenantInterceptor.intercept\<close>. \<open>Inr em'\<close> is \<^verbatim>\<open>return next.handle()\<close> reached with
  the session in state \<open>em'\<close>; \<open>Inl\<close> is the exception thrown. The filter condition is
  \<^verbatim>\<open>(args) => ({ tenant: args.tenantId })\<close>.
\<close>

definition tenant_cond :: "FilterParams \<Rightarrow> FilterQuery" where
  "tenant_cond args = [(''tenant'', map_of args ''tenantId'')]"

definition TenantInterceptor_intercept ::
  "tenantConfig \<Rightarrow> EntityManager \<Rightarrow> ExecutionContext \<Rightarrow> error + EntityManager" where
  "TenantInterceptor_intercept cfg em context =
     (let request = getRequest context;
          isPublic = getAllAndOverride isPublic [getHandler context, getClass context]
      in if isPublic = Some True then Inr em
         else
           let shouldSkipTenant =
                 getAllAndOverride skipTenant [getHandler context, getClass context]
           in if shouldSkipTenant = Some True then Inr em
              else
                case user request of
                  None \<Rightarrow> Inl (InternalServerErrorException ''User not found'')
                | Some u \<Rightarrow>
                    (case tenant u of
                       None \<Rightarrow> Inl (InternalServerErrorException ''Tenant not found'')
                     | Some t \<Rightarrow>
                         Inr (setFilterParams ''tenant'' [(''tenantId'', id' t)]
                               (addFilter ''tenant'' tenant_cond (entities cfg) em))))"

section \<open>Ability factory and policy guard\<close>

text \<open>
  \<^verbatim>\<open>CaslAbilityFactory.createForUser(user)\<close>:
  \<^verbatim>\<open>user.role.permissions.map(p => ({ action: p.action, subject: p.subject }))\<close>, handed
  to \<^verbatim>\<open>createMongoAbility\<close>. The guard passes whatever the request holds, so the argument
  may be \<^verbatim>\<open>undefined\<close>; each dereference of an absent value raises.
\<close>

definition createForUser :: "User option \<Rightarrow> error + AppAbility" where
  "createForUser usr =
     (case usr of
        None \<Rightarrow> Inl TypeError
      | Some u \<Rightarrow>
          (case role u of
             None \<Rightarrow> Inl TypeError
           | Some r \<Rightarrow>
               (case permissions r of
                  None \<Rightarrow> Inl CollectionNotInitialized
                | Some ps \<Rightarrow>
                    Inr (createMongoAbility
                          (map (\<lambda>permission.
                                  \<lparr>action = Permission.action permission,
                                   subject = Permission.subject permission\<rparr>) ps)))))"

text \<open>\<^verbatim>\<open>PoliciesGuard.execPolicyHandler\<close>: call the function, or the \<^verbatim>\<open>handle\<close> method.\<close>

fun execPolicyHandler :: "PolicyHandler \<Rightarrow> AppAbility \<Rightarrow> User \<Rightarrow> Request \<Rightarrow> bool" where
  "execPolicyHandler (PolicyHandlerCallback f) ability u request = f ability u request"
| "execPolicyHandler (IPolicyHandler h) ability u request = h ability u request"

text \<open>
  \<^verbatim>\<open>PoliciesGuard.canActivate\<close>: read the declared handlers (\<^verbatim>\<open>|| []\<close> when the key is
  not set), take the user of the request, build the ability, and return
  \<^verbatim>\<open>policyHandlers.every(...)\<close>. The ability is built before the list is looked at, so an
  exception of the factory is the outcome of the guard. The factory returns only for a
  user that is present, so the inner branch for an absent user is never taken; it is
  there because a handler takes a user, not an optional one.
\<close>

definition PoliciesGuard_canActivate :: "ExecutionContext \<Rightarrow> error + bool" where
  "PoliciesGuard_canActivate context =
     (let policyHandlers =
            (case checkPolicy (getHandler context) of None \<Rightarrow> [] | Some hs \<Rightarrow> hs);
          usr = user (getRequest context)
      in case createForUser usr of
           Inl e \<Rightarrow> Inl e
         | Inr ability \<Rightarrow>
             (case usr of
                None \<Rightarrow> Inl TypeError
              | Some u \<Rightarrow>
                  Inr (list_all (\<lambda>handler.
                         execPolicyHandler handler ability u (getRequest context))
                       policyHandlers)))"

section \<open>The read-user policy\<close>
















section \<open>Routes that fetch one record\<close>








section \<open>Error classes and example data\<close>

text \<open>
  The exception class with which the repository reports an authentication failure
  (\<^verbatim>\<open>AuthService.validateUser\<close> and \<^verbatim>\<open>LocalStrategy.validate\<close> throw it for bad
  credentials); the framework answers it with status 401.
\<close>

fun is_Unauthenticated :: "error \<Rightarrow> bool" where
  "is_Unauthenticated (UnauthorizedException m) = True"
| "is_Unauthenticated e = False"

text \<open>
  Two tenants, a role whose only permission is \<^verbatim>\<open>(readOwn, User)\<close>, a user of the first
  tenant with that role, one organization of each tenant, and a session over them with no
  filter installed yet.
\<close>

definition tenant_T1 :: Tenant where
  "tenant_T1 = \<lparr>id' = 1, Tenant.domain = ''t1.example.com'', isActive = True\<rparr>"

definition tenant_T2 :: Tenant where
  "tenant_T2 = \<lparr>id' = 2, Tenant.domain = ''t2.example.com'', isActive = True\<rparr>"

definition permission_readOwn_User :: Permission where
  "permission_readOwn_User =
     \<lparr>id' = 9, Permission.name = ''readOwn:user'', Permission.action = ''readOwn'',
      Permission.subject = ''User''\<rparr>"

definition role_reader :: Role where
  "role_reader = \<lparr>id' = 2, Role.name = ''user'', permissions = Some [permission_readOwn_User]\<rparr>"

definition user_A :: User where
  "user_A = \<lparr>id' = 5, tenant = Some tenant_T1, username = ''a'', email = ''a@t1.example.com'',
              password = ''x'', role = Some role_reader\<rparr>"

definition org_T1 :: Organization where
  "org_T1 = \<lparr>id' = 3, tenant = Some tenant_T1, Organization.name = ''own'', description = None\<rparr>"

definition org_T2 :: Organization where
  "org_T2 = \<lparr>id' = 7, tenant = Some tenant_T2, Organization.name = ''foreign'', description = None\<rparr>"

definition em_0 :: EntityManager where
  "em_0 = \<lparr>filters = [], filterParams = [], organization_table = [org_T1, org_T2],
           user_table = [user_A]\<rparr>"

definition no_metadata :: Metadata where
  "no_metadata = \<lparr>isPublic = None, skipTenant = None, checkPolicy = None\<rparr>"

text \<open>A request on a route without metadata, with the given user and path id.\<close>

definition context_of :: "User option \<Rightarrow> string \<Rightarrow> ExecutionContext" where
  "context_of usr path =
     \<lparr>getHandler = no_metadata, getClass = no_metadata,
      getRequest = \<lparr>user = usr, params_id = path\<rparr>\<rparr>"

text \<open>The same, on a route that declares the given policies.\<close>

definition context_with :: "PolicyHandler list \<Rightarrow> User option \<Rightarrow> string \<Rightarrow> ExecutionContext" where
  "context_with hs usr path =
     \<lparr>getHandler = no_metadata\<lparr>checkPolicy := Some hs\<rparr>, getClass = no_metadata,
      getRequest = \<lparr>user = usr, params_id = path\<rparr>\<rparr>"






section \<open>Tenant domain normalization\<close>

text \<open>
  Claim C4. For every creation of a tenant under a configured root domain, the
  before-create event rewrites the domain of the tenant to the raw label, a dot and the
  root domain, and leaves the other fields as they are; the label \<^verbatim>\<open>acme\<close> under
  \<^verbatim>\<open>example.com\<close> becomes \<^verbatim>\<open>acme.example.com\<close>.
\<close>

theorem tenant_domain_normalized:
  "tenantConfig.domain cfg = Some root \<Longrightarrow>
   fire_beforeCreate_Tenant cfg cls entity =
     Inr (entity\<lparr>Tenant.domain := Tenant.domain entity @ ''.'' @ root\<rparr>)"
  by (simp add: fire_beforeCreate_Tenant_def TenantSubscriber_getSubscribedEntities_def
      TenantSubscriber_beforeCreate_def js_to_string_def)

theorem tenant_domain_normalized_witness:
  "tenantConfig.domain (tenantConfigService (Some ''example.com'')) = Some ''example.com'' \<and>
   fire_beforeCreate_Tenant (tenantConfigService (Some ''example.com'')) cls_empty
       \<lparr>id' = 1, Tenant.domain = ''acme'', isActive = True\<rparr> =
     Inr \<lparr>id' = 1, Tenant.domain = ''acme.example.com'', isActive = True\<rparr>"
proof -
  have h: "tenantConfig.domain (tenantConfigService (Some ''example.com'')) = Some ''example.com''"
    by (simp add: tenantConfigService_def)
  show ?thesis
    using h tenant_domain_normalized [OF h, of cls_empty "\<lparr>id' = 1, Tenant.domain = ''acme'', isActive = True\<rparr>"]
    by simp
qed

section \<open>Tenant stamping\<close>

lemma validate_Some:
  "JwtStrategy_validate em cls sub = (cls', Some u) \<Longrightarrow> cls' = cls_set cls ''tenant'' (tenant u)"
  by (auto simp: JwtStrategy_validate_def Let_def split: option.splits)

lemma validate_user_A:
  "JwtStrategy_validate em_0 cls_empty 5 = (cls_set cls_empty ''tenant'' (Some tenant_T1), Some user_A)"
  by (simp add: JwtStrategy_validate_def UsersService_findOne_def UserRepository_findOne_def
      em_findOne_def passes_filters_def em_0_def user_A_def)

text \<open>
  Claim C2. In a request whose principal was resolved to the user \<open>u\<close>, the store holds
  the tenant of \<open>u\<close>, and for every entity class that is configured as tenant-owned and
  is not \<^verbatim>\<open>User\<close> the before-create event sets the tenant field of the entity to the
  tenant of \<open>u\<close>, whatever the field held before.
\<close>

theorem stamping_hook_assigns_request_tenant:
  assumes "JwtStrategy_validate em cls sub = (cls', Some u)"
    and "cl \<in> set (entities cfg)" and "cl \<noteq> UserClass"
  shows "cls_get cls' ''tenant'' = tenant u \<and>
         fire_beforeCreate_owned cfg cls' cl entity = Inr (entity\<lparr>tenant := tenant u\<rparr>)"
  using assms validate_Some [OF assms(1)]
  by (simp add: fire_beforeCreate_owned_def TenantAwareSubscriber_getSubscribedEntities_def
      TenantAwareSubscriber_beforeCreate_def cls_get_def cls_set_def)

theorem stamping_hook_assigns_request_tenant_witness:
  "JwtStrategy_validate em_0 cls_empty 5 =
     (cls_set cls_empty ''tenant'' (Some tenant_T1), Some user_A) \<and>
   OrganizationClass \<in> set (entities (tenantConfigService None)) \<and>
   OrganizationClass \<noteq> UserClass \<and>
   fire_beforeCreate_owned (tenantConfigService None)
       (cls_set cls_empty ''tenant'' (Some tenant_T1)) OrganizationClass org_T2 =
     Inr (org_T2\<lparr>tenant := Some tenant_T1\<rparr>)"
proof -
  have m: "OrganizationClass \<in> set (entities (tenantConfigService None))"
    by (simp add: tenantConfigService_def)
  have n: "OrganizationClass \<noteq> UserClass" by simp
  have t: "tenant user_A = Some tenant_T1" by (simp add: user_A_def)
  show ?thesis
    using stamping_hook_assigns_request_tenant [OF validate_user_A m n, of org_T2]
      validate_user_A m t by simp
qed

text \<open>
  Claim C3, as the code has it. The hook does not test the value it reads: with no tenant
  in the store it returns normally and the entity leaves it with an absent tenant.
\<close>

theorem stamping_without_tenant_does_not_fail:
  "cls_get cls ''tenant'' = None \<Longrightarrow>
   TenantAwareSubscriber_beforeCreate cls entity = Inr (entity\<lparr>tenant := None\<rparr>)"
  by (simp add: TenantAwareSubscriber_beforeCreate_def)

theorem stamping_without_tenant_does_not_fail_witness:
  "cls_get cls_empty ''tenant'' = None \<and>
   TenantAwareSubscriber_beforeCreate cls_empty org_T1 = Inr (org_T1\<lparr>tenant := None\<rparr>)"
proof -
  have h: "cls_get cls_empty ''tenant'' = None" by (simp add: cls_get_def cls_empty_def)
  show ?thesis using h stamping_without_tenant_does_not_fail [OF h, of org_T1] by simp
qed

text \<open>
  The claim as stated (the hook fails when the store holds no tenant) does not hold: on
  the empty store the event for an organization ends normally, with the tenant that the
  caller had supplied replaced by the absent value.
\<close>

theorem stamping_missing_context_counterexample:
  "cls_get cls_empty ''tenant'' = None \<and>
   \<not> isl (fire_beforeCreate_owned (tenantConfigService None) cls_empty OrganizationClass org_T2) \<and>
   fire_beforeCreate_owned (tenantConfigService None) cls_empty OrganizationClass org_T2 =
     Inr \<lparr>id' = 7, tenant = None, Organization.name = ''foreign'', description = None\<rparr>"
  by (simp add: fire_beforeCreate_owned_def TenantAwareSubscriber_getSubscribedEntities_def
      TenantAwareSubscriber_beforeCreate_def cls_get_def cls_empty_def tenantConfigService_def
      org_T2_def)

section \<open>Policy guard\<close>

text \<open>
  Claim C9. The guard builds the ability from the user of the request before it looks at
  the declared policies. When the request has no user, or the user has no role, or the
  permissions of the role are not loaded, the guard ends with an exception, whatever the
  declared list is, the empty list included.
\<close>

theorem guard_throws_without_loaded_principal:
  assumes "user (getRequest ctx) = None \<or>
           (\<exists>u. user (getRequest ctx) = Some u \<and>
                (role u = None \<or> (\<exists>r. role u = Some r \<and> permissions r = None)))"
  shows "\<exists>e. PoliciesGuard_canActivate ctx = Inl e"
  using assms
  by (auto simp: PoliciesGuard_canActivate_def createForUser_def Let_def split: option.splits)

theorem guard_throws_without_loaded_principal_witness:
  "user (getRequest (context_with [] None ''1'')) = None \<and>
   checkPolicy (getHandler (context_with [] None ''1'')) = Some [] \<and>
   (\<exists>e. PoliciesGuard_canActivate (context_with [] None ''1'') = Inl e)"
proof -
  have h: "user (getRequest (context_with [] None ''1'')) = None"
    by (simp add: context_with_def)
  have c: "checkPolicy (getHandler (context_with [] None ''1'')) = Some []"
    by (simp add: context_with_def)
  show ?thesis
    using h c guard_throws_without_loaded_principal [of "context_with [] None ''1''"] by simp
qed






section \<open>Ability factory\<close>

lemma can_createMongoAbility:
  "can (createMongoAbility (map (\<lambda>permission.
          \<lparr>RawRule.action = Permission.action permission,
           RawRule.subject = Permission.subject permission\<rparr>) ps)) a s \<longleftrightarrow>
   (\<exists>p \<in> set ps. Permission.subject p = Subjects_value s \<and>
      (Permission.action p = Actions_value a \<or> Permission.action p = Actions_value Manage))"
  by (auto simp: can_def createMongoAbility_def rule_matches_def list_ex_iff)

text \<open>
  Claim C5. For a user whose role has its permissions loaded, the factory returns an
  ability with exactly one rule for each permission, the rule at each position being the
  action and subject of the permission at that position; the ability grants a target
  (action, subject) if and only if some permission has the target subject and either the
  target action or \<^verbatim>\<open>'manage'\<close>; and a permission set that contains this one grants
  everything this one grants.
\<close>

theorem ability_factory_grants:
  assumes "role u = Some r" and "permissions r = Some ps"
  shows "\<exists>ability. createForUser (Some u) = Inr ability \<and>
           length (rules ability) = length ps \<and>
           (\<forall>i < length ps. rules ability ! i =
              \<lparr>RawRule.action = Permission.action (ps ! i),
               RawRule.subject = Permission.subject (ps ! i)\<rparr>) \<and>
           (\<forall>a s. can ability a s \<longleftrightarrow>
              (\<exists>p \<in> set ps. Permission.subject p = Subjects_value s \<and>
                 (Permission.action p = Actions_value a \<or>
                  Permission.action p = Actions_value Manage))) \<and>
           (\<forall>u' r' ps' ability' a s.
              role u' = Some r' \<and> permissions r' = Some ps' \<and> set ps \<subseteq> set ps' \<and>
              createForUser (Some u') = Inr ability' \<and> can ability a s
              \<longrightarrow> can ability' a s)"
proof -
  let ?ab = "createMongoAbility (map (\<lambda>permission.
          \<lparr>RawRule.action = Permission.action permission,
           RawRule.subject = Permission.subject permission\<rparr>) ps)"
  have c: "createForUser (Some u) = Inr ?ab"
    using assms by (simp add: createForUser_def)
  have l: "length (rules ?ab) = length ps" by (simp add: createMongoAbility_def)
  have n: "\<forall>i < length ps. rules ?ab ! i =
              \<lparr>RawRule.action = Permission.action (ps ! i),
               RawRule.subject = Permission.subject (ps ! i)\<rparr>"
    by (simp add: createMongoAbility_def)
  have g: "\<forall>a s. can ?ab a s \<longleftrightarrow>
              (\<exists>p \<in> set ps. Permission.subject p = Subjects_value s \<and>
                 (Permission.action p = Actions_value a \<or>
                  Permission.action p = Actions_value Manage))"
    using can_createMongoAbility by blast
  have m: "\<forall>u' r' ps' ability' a s.
              role u' = Some r' \<and> permissions r' = Some ps' \<and> set ps \<subseteq> set ps' \<and>
              createForUser (Some u') = Inr ability' \<and> can ?ab a s
              \<longrightarrow> can ability' a s"
  proof (intro allI impI)
    fix u' :: User and r' ps' ability' a s
    assume h: "role u' = Some r' \<and> permissions r' = Some ps' \<and> set ps \<subseteq> set ps' \<and>
              createForUser (Some u') = Inr ability' \<and> can ?ab a s"
    then have "ability' = createMongoAbility (map (\<lambda>permission.
          \<lparr>RawRule.action = Permission.action permission,
           RawRule.subject = Permission.subject permission\<rparr>) ps')"
      by (auto simp: createForUser_def)
    moreover from h obtain p where "p \<in> set ps" "Permission.subject p = Subjects_value s"
      "Permission.action p = Actions_value a \<or> Permission.action p = Actions_value Manage"
      using can_createMongoAbility by blast
    ultimately show "can ability' a s"
      using h can_createMongoAbility by blast
  qed
  from c l n g m show ?thesis by blast
qed

theorem ability_factory_grants_witness:
  "role user_A = Some role_reader \<and> permissions role_reader = Some [permission_readOwn_User] \<and>
   (\<exists>ability. createForUser (Some user_A) = Inr ability \<and>
      length (rules ability) = 1 \<and>
      can ability ReadOwn Subjects.User \<and> \<not> can ability ReadAny Subjects.User \<and>
      \<not> can ability ReadOwn Subjects.Organization)"
proof -
  have r: "role user_A = Some role_reader" by (simp add: user_A_def)
  have p: "permissions role_reader = Some [permission_readOwn_User]"
    by (simp add: role_reader_def)
  from ability_factory_grants [OF r p] obtain ability where
    a: "createForUser (Some user_A) = Inr ability" and
    l: "length (rules ability) = length [permission_readOwn_User]" and
    g: "\<forall>a s. can ability a s \<longleftrightarrow>
              (\<exists>p \<in> set [permission_readOwn_User]. Permission.subject p = Subjects_value s \<and>
                 (Permission.action p = Actions_value a \<or>
                  Permission.action p = Actions_value Manage))"
    by blast
  have "can ability ReadOwn Subjects.User" "\<not> can ability ReadAny Subjects.User"
    "\<not> can ability ReadOwn Subjects.Organization"
    using g by (simp_all add: permission_readOwn_User_def)
  with r p a l show ?thesis by simp
qed

section \<open>Tenant scope filter\<close>

lemma intercept_scoped:
  assumes "getAllAndOverride isPublic [getHandler ctx, getClass ctx] \<noteq> Some True"
    and "getAllAndOverride skipTenant [getHandler ctx, getClass ctx] \<noteq> Some True"
  shows "TenantInterceptor_intercept cfg em ctx =
     (case user (getRequest ctx) of
        None \<Rightarrow> Inl (InternalServerErrorException ''User not found'')
      | Some u \<Rightarrow>
          (case tenant u of
             None \<Rightarrow> Inl (InternalServerErrorException ''Tenant not found'')
           | Some t \<Rightarrow>
               Inr (setFilterParams ''tenant'' [(''tenantId'', id' t)]
                     (addFilter ''tenant'' tenant_cond (entities cfg) em))))"
  using assms by (simp add: TenantInterceptor_intercept_def Let_def)

lemma installed_filter:
  "map_of (filters (setFilterParams nm args (addFilter nm c ents em))) nm =
     Some \<lparr>cond = c, filter_entities = ents\<rparr> \<and>
   map_of (filterParams (setFilterParams nm args (addFilter nm c ents em))) nm = Some args \<and>
   organization_table (setFilterParams nm args (addFilter nm c ents em)) = organization_table em \<and>
   user_table (setFilterParams nm args (addFilter nm c ents em)) = user_table em"
  by (simp add: setFilterParams_def addFilter_def update_Some_unfold)

text \<open>
  Claim C8, as the code has it. On a request that is neither public nor marked to skip
  tenant scoping, the installer throws the internal-server-error exception
  \<^verbatim>\<open>'User not found'\<close> when the request has no user, the internal-server-error exception
  \<^verbatim>\<open>'Tenant not found'\<close> when the user has no tenant, and otherwise proceeds with the
  filter \<^verbatim>\<open>'tenant'\<close> registered for the configured entities and its parameter set to the
  id of the user's tenant, the tables untouched.
\<close>

theorem intercept_scoped_outcomes:
  assumes "getAllAndOverride isPublic [getHandler ctx, getClass ctx] \<noteq> Some True"
    and "getAllAndOverride skipTenant [getHandler ctx, getClass ctx] \<noteq> Some True"
  shows "(user (getRequest ctx) = None \<longrightarrow>
            TenantInterceptor_intercept cfg em ctx =
              Inl (InternalServerErrorException ''User not found'')) \<and>
         (\<forall>u. user (getRequest ctx) = Some u \<and> tenant u = None \<longrightarrow>
            TenantInterceptor_intercept cfg em ctx =
              Inl (InternalServerErrorException ''Tenant not found'')) \<and>
         (\<forall>u t. user (getRequest ctx) = Some u \<and> tenant u = Some t \<longrightarrow>
            (\<exists>em'. TenantInterceptor_intercept cfg em ctx = Inr em' \<and>
               map_of (filters em') ''tenant'' =
                 Some \<lparr>cond = tenant_cond, filter_entities = entities cfg\<rparr> \<and>
               map_of (filterParams em') ''tenant'' = Some [(''tenantId'', id' t)] \<and>
               organization_table em' = organization_table em \<and>
               user_table em' = user_table em))"
  using installed_filter by (simp add: intercept_scoped [OF assms])

lemma scoped_no_metadata:
  "getAllAndOverride isPublic [getHandler (context_of usr path), getClass (context_of usr path)]
     \<noteq> Some True \<and>
   getAllAndOverride skipTenant [getHandler (context_of usr path), getClass (context_of usr path)]
     \<noteq> Some True"
  by (simp add: getAllAndOverride_def context_of_def no_metadata_def)

theorem intercept_scoped_outcomes_witness:
  "getAllAndOverride isPublic
     [getHandler (context_of (Some user_A) ''7''), getClass (context_of (Some user_A) ''7'')]
     \<noteq> Some True \<and>
   getAllAndOverride skipTenant
     [getHandler (context_of (Some user_A) ''7''), getClass (context_of (Some user_A) ''7'')]
     \<noteq> Some True \<and>
   user (getRequest (context_of (Some user_A) ''7'')) = Some user_A \<and>
   tenant user_A = Some tenant_T1 \<and>
   (\<exists>em'. TenantInterceptor_intercept (tenantConfigService None) em_0
             (context_of (Some user_A) ''7'') = Inr em' \<and>
      map_of (filterParams em') ''tenant'' = Some [(''tenantId'', 1)])"
proof -
  let ?ctx = "context_of (Some user_A) ''7''"
  have p: "getAllAndOverride isPublic [getHandler ?ctx, getClass ?ctx] \<noteq> Some True"
    and s: "getAllAndOverride skipTenant [getHandler ?ctx, getClass ?ctx] \<noteq> Some True"
    using scoped_no_metadata by simp_all
  have u: "user (getRequest ?ctx) = Some user_A" by (simp add: context_of_def)
  have t: "tenant user_A = Some tenant_T1" by (simp add: user_A_def)
  have i: "id' tenant_T1 = 1" by (simp add: tenant_T1_def)
  show ?thesis
    using intercept_scoped_outcomes [OF p s, of "tenantConfigService None" em_0] p s u t i
    by auto
qed

text \<open>
  The claim as stated (a missing user is reported by an error of the unauthenticated
  class) does not hold: the exception thrown is of the internal-server-error class,
  answered with status 500, the same class as the one for a missing tenant.
\<close>

theorem intercept_no_user_counterexample:
  "getAllAndOverride isPublic
     [getHandler (context_of None ''7''), getClass (context_of None ''7'')] \<noteq> Some True \<and>
   getAllAndOverride skipTenant
     [getHandler (context_of None ''7''), getClass (context_of None ''7'')] \<noteq> Some True \<and>
   user (getRequest (context_of None ''7'')) = None \<and>
   TenantInterceptor_intercept (tenantConfigService None) em_0 (context_of None ''7'') =
     Inl (InternalServerErrorException ''User not found'') \<and>
   \<not> is_Unauthenticated (InternalServerErrorException ''User not found'') \<and>
   getStatus (InternalServerErrorException ''User not found'') = 500"
  by (simp add: TenantInterceptor_intercept_def getAllAndOverride_def context_of_def
      no_metadata_def)











section \<open>The read-user policy and the path id\<close>


















end
